theory Spec2Isabelle
  imports Complex_Main
begin

section \<open>Data model\<close>

text \<open>
  The recommender of \<^verbatim>\<open>src/recommender/model.py\<close> works on pandas frames. A frame is
  modelled by its column labels and its rows, each row carrying its index label; labels
  are the integer ids of the rating table. A cell is a float: \<open>Some r\<close> is the number
  \<open>r\<close>, \<open>None\<close> is NaN (pandas' "absent"). Arithmetic on cells is exact (real numbers);
  rounding of IEEE doubles is not part of the model. Axis labels are taken to be
  unique, as \<^verbatim>\<open>pivot_table\<close> produces them.
\<close>

datatype py_error = KeyError | ValueError

record rating_record =
  User_ID :: int
  Item_ID :: int
  Rating :: real

type_synonym series = "(int \<times> real option) list"

record dataframe =
  columns :: "int list"
  rows :: "(int \<times> real option list) list"

definition index :: "dataframe \<Rightarrow> int list" where
  "index df = map fst (rows df)"

text \<open>\<^verbatim>\<open>df.loc[label]\<close>: the row as a series labelled by the columns; KeyError for an unknown label.\<close>

definition loc :: "dataframe \<Rightarrow> int \<Rightarrow> py_error + series" where
  "loc df label =
     (case map_of (rows df) label of
        None \<Rightarrow> Inl KeyError
      | Some vs \<Rightarrow> Inr (zip (columns df) vs))"

text \<open>\<^verbatim>\<open>df.at[r, c]\<close>: one cell by its two labels.\<close>

definition at_cell :: "dataframe \<Rightarrow> int \<Rightarrow> int \<Rightarrow> py_error + real option" where
  "at_cell df r c =
     (case loc df r of
        Inl e \<Rightarrow> Inl e
      | Inr s \<Rightarrow> (case map_of s c of None \<Rightarrow> Inl KeyError | Some v \<Rightarrow> Inr v))"

text \<open>\<^verbatim>\<open>df.to_numpy()\<close>, \<^verbatim>\<open>df.fillna(c)\<close>, \<^verbatim>\<open>df.T\<close> and \<^verbatim>\<open>pd.DataFrame(values, index, columns)\<close>.\<close>

definition to_numpy :: "dataframe \<Rightarrow> real option list list" where
  "to_numpy df = map snd (rows df)"

definition fillna :: "real \<Rightarrow> dataframe \<Rightarrow> dataframe" where
  "fillna c df =
     df\<lparr>rows := map (\<lambda>(l, vs). (l, map (\<lambda>v. case v of None \<Rightarrow> Some c | Some r \<Rightarrow> Some r) vs)) (rows df)\<rparr>"

definition transpose_df :: "dataframe \<Rightarrow> dataframe" where
  "transpose_df df =
     \<lparr>columns = index df,
      rows = map (\<lambda>j. (columns df ! j, map (\<lambda>r. snd r ! j) (rows df))) [0..<length (columns df)]\<rparr>"

definition DataFrame :: "real option list list \<Rightarrow> int list \<Rightarrow> int list \<Rightarrow> py_error + dataframe" where
  "DataFrame vals idx cols =
     (if length vals \<noteq> length idx \<or> list_ex (\<lambda>r. length r \<noteq> length cols) vals
      then Inl ValueError
      else Inr \<lparr>columns = cols, rows = zip idx vals\<rparr>)"

section \<open>Pivot builder\<close>

text \<open>
  \<^verbatim>\<open>pivot_table(index="User_ID", columns="Item_ID", values="Rating", aggfunc="mean")\<close>:
  the records are grouped by (user, item), each group is averaged, and the result is laid
  out with the distinct user ids as sorted row labels and the distinct item ids as sorted
  column labels. A pair without record is NaN. Ratings are numbers: a table with a NaN
  rating, whose rows and columns \<^verbatim>\<open>pivot_table\<close> may drop, is outside the model.
\<close>

definition agg_mean :: "real list \<Rightarrow> real option" where
  "agg_mean xs = (if xs = [] then None else Some (sum_list xs / real (length xs)))"

definition group_ratings :: "rating_record list \<Rightarrow> int \<Rightarrow> int \<Rightarrow> real list" where
  "group_ratings ratings_df u i =
     map Rating (filter (\<lambda>r. User_ID r = u \<and> Item_ID r = i) ratings_df)"

definition build_pivot_table :: "rating_record list \<Rightarrow> dataframe" where
  "build_pivot_table ratings_df =
     (let users = sort (remdups (map User_ID ratings_df));
          items = sort (remdups (map Item_ID ratings_df))
      in \<lparr>columns = items,
          rows = map (\<lambda>u. (u, map (\<lambda>i. agg_mean (group_ratings ratings_df u i)) items)) users\<rparr>)"

section \<open>Similarity engine\<close>

text \<open>
  \<^verbatim>\<open>sklearn.metrics.pairwise.cosine_similarity(X)\<close>: the input is validated
  (\<^verbatim>\<open>check_pairwise_arrays\<close>: no NaN, at least one sample and one feature, ValueError
  otherwise), every row is divided by its Euclidean norm (\<^verbatim>\<open>normalize\<close>), and the result
  is the matrix of the dot products of the normalised rows. Before the division a norm
  below ten machine epsilons, zero included, is replaced by 1
  (\<^verbatim>\<open>_handle_zeros_in_scale\<close>: \<^verbatim>\<open>scale[scale < 10 * eps] = 1.0\<close>, with
  \<^verbatim>\<open>np.finfo(float64).eps = 2 ** -52\<close>), so that such a row is left as it is. A division by
  zero would give an IEEE special value; it is \<open>None\<close> here and propagates through sums and
  products. Sums, products, quotients and square roots are exact: what rounding, overflow
  and underflow of doubles do to a result is outside the model.
\<close>

definition check_pairwise_arrays :: "real option list list \<Rightarrow> py_error + real list list" where
  "check_pairwise_arrays X =
     (case those (map those X) of
        None \<Rightarrow> Inl ValueError
      | Some A \<Rightarrow>
          if length A < 1 then Inl ValueError
          else if (case A of [] \<Rightarrow> 0 | r # _ \<Rightarrow> length r) < 1 then Inl ValueError
          else Inr A)"

definition row_norms :: "real list list \<Rightarrow> real list" where
  "row_norms A = map (\<lambda>x. sqrt (sum_list (map (\<lambda>a. a * a) x))) A"

definition float_eps :: real where
  "float_eps = 1 / 2 ^ 52"

definition handle_zeros_in_scale :: "real list \<Rightarrow> real list" where
  "handle_zeros_in_scale scale = map (\<lambda>s. if s < 10 * float_eps then 1 else s) scale"

definition np_divide :: "real \<Rightarrow> real \<Rightarrow> real option" where
  "np_divide a d = (if d = 0 then None else Some (a / d))"

definition np_multiply :: "real option \<Rightarrow> real option \<Rightarrow> real option" where
  "np_multiply a b = (case (a, b) of (Some x, Some y) \<Rightarrow> Some (x * y) | _ \<Rightarrow> None)"

definition np_add :: "real option \<Rightarrow> real option \<Rightarrow> real option" where
  "np_add a b = (case (a, b) of (Some x, Some y) \<Rightarrow> Some (x + y) | _ \<Rightarrow> None)"

definition normalize_l2 :: "real list list \<Rightarrow> real option list list" where
  "normalize_l2 A =
     map (\<lambda>(x, d). map (\<lambda>a. np_divide a d) x) (zip A (handle_zeros_in_scale (row_norms A)))"

definition dot :: "real option list \<Rightarrow> real option list \<Rightarrow> real option" where
  "dot x y = foldr (\<lambda>(a, b) acc. np_add (np_multiply a b) acc) (zip x y) (Some 0)"

definition cosine_similarity :: "real option list list \<Rightarrow> py_error + real option list list" where
  "cosine_similarity X =
     (case check_pairwise_arrays X of
        Inl e \<Rightarrow> Inl e
      | Inr A \<Rightarrow>
          let X_normalized = normalize_l2 A
          in Inr (map (\<lambda>x. map (\<lambda>y. dot x y) X_normalized) X_normalized))"

definition compute_user_similarity :: "dataframe \<Rightarrow> py_error + dataframe" where
  "compute_user_similarity pivot =
     (let pivot_filled = fillna 0 pivot
      in case cosine_similarity (to_numpy pivot_filled) of
           Inl e \<Rightarrow> Inl e
         | Inr sim \<Rightarrow> DataFrame sim (index pivot) (index pivot))"

definition compute_item_similarity :: "dataframe \<Rightarrow> py_error + dataframe" where
  "compute_item_similarity pivot =
     (let pivot_filled = fillna 0 pivot
      in case cosine_similarity (to_numpy (transpose_df pivot_filled)) of
           Inl e \<Rightarrow> Inl e
         | Inr sim \<Rightarrow> DataFrame sim (columns pivot) (columns pivot))"

section \<open>Recommendation ranker\<close>

text \<open>
  \<^verbatim>\<open>Series.sort_values(ascending=False)\<close>: the non-NaN entries are reversed, sorted
  ascending and reversed again, and the NaN entries follow in their original order
  (\<^verbatim>\<open>nargsort\<close>, \<^verbatim>\<open>na_position="last"\<close>). The sort is taken to keep equal values in
  their order (numpy's default sort does so on short arrays, and promises nothing on long
  ones), so that ties of a descending sort stay in the order of the series.
\<close>

fun non_nans :: "series \<Rightarrow> (int \<times> real) list" where
  "non_nans [] = []"
| "non_nans ((l, None) # s) = non_nans s"
| "non_nans ((l, Some r) # s) = (l, r) # non_nans s"

definition sort_values_desc :: "series \<Rightarrow> series" where
  "sort_values_desc s =
     (let nans = filter (\<lambda>(l, v). v = None) s
      in map (\<lambda>(l, r). (l, Some r)) (rev (sort_key snd (rev (non_nans s)))) @ nans)"

text \<open>\<^verbatim>\<open>s.iloc[1:]\<close>, \<^verbatim>\<open>s.dropna()\<close>, \<^verbatim>\<open>s[s > t].index.tolist()\<close>, \<^verbatim>\<open>list(dict.fromkeys(xs))\<close>, \<^verbatim>\<open>xs[:n]\<close>.\<close>

definition iloc_from1 :: "series \<Rightarrow> series" where
  "iloc_from1 s = drop 1 s"

definition dropna :: "series \<Rightarrow> series" where
  "dropna s = filter (\<lambda>(l, v). v \<noteq> None) s"

definition high_rated_items :: "series \<Rightarrow> real \<Rightarrow> int list" where
  "high_rated_items user_ratings min_rating_threshold =
     map fst (filter (\<lambda>(l, v). case v of None \<Rightarrow> False | Some r \<Rightarrow> r > min_rating_threshold) user_ratings)"

definition fromkeys :: "int list \<Rightarrow> int list" where
  "fromkeys xs = fold (\<lambda>x acc. if x \<in> set acc then acc else acc @ [x]) xs []"

definition slice_to :: "int \<Rightarrow> 'a list \<Rightarrow> 'a list" where
  "slice_to n xs = (if 0 \<le> n then take (nat n) xs else take (nat (int (length xs) + n)) xs)"

text \<open>The neighbours of \<open>user_id\<close>: line 44 of \<^verbatim>\<open>model.py\<close>.\<close>

definition similar_users :: "int \<Rightarrow> dataframe \<Rightarrow> py_error + series" where
  "similar_users user_id user_similarity_df =
     (case loc user_similarity_df user_id of
        Inl e \<Rightarrow> Inl e
      | Inr s \<Rightarrow> Inr (iloc_from1 (sort_values_desc s)))"

text \<open>The loop over the neighbours (lines 46 to 50), with the list it extends.\<close>

fun collect_recommendations :: "dataframe \<Rightarrow> real \<Rightarrow> int list \<Rightarrow> int list \<Rightarrow> py_error + int list" where
  "collect_recommendations pivot t [] recommendations = Inr recommendations"
| "collect_recommendations pivot t (similar_user # rest) recommendations =
     (case loc pivot similar_user of
        Inl e \<Rightarrow> Inl e
      | Inr user_ratings \<Rightarrow>
          collect_recommendations pivot t rest (recommendations @ high_rated_items user_ratings t))"

definition recommend_for_user :: "int \<Rightarrow> dataframe \<Rightarrow> dataframe \<Rightarrow> int \<Rightarrow> real \<Rightarrow> py_error + int list" where
  "recommend_for_user user_id pivot user_similarity_df n_recommendations min_rating_threshold =
     (if user_id \<notin> set (index pivot) then Inr []
      else
        case similar_users user_id user_similarity_df of
          Inl e \<Rightarrow> Inl e
        | Inr similar \<Rightarrow>
            (case collect_recommendations pivot min_rating_threshold (map fst similar) [] of
               Inl e \<Rightarrow> Inl e
             | Inr recommendations \<Rightarrow>
                 (case loc pivot user_id of
                    Inl e \<Rightarrow> Inl e
                  | Inr own \<Rightarrow>
                      let already_rated = map fst (dropna own);
                          unique_recs = filter (\<lambda>i. i \<notin> set already_rated) (fromkeys recommendations)
                      in Inr (slice_to n_recommendations unique_recs))))"

definition recommend_similar_items :: "int \<Rightarrow> dataframe \<Rightarrow> int \<Rightarrow> py_error + int list" where
  "recommend_similar_items item_id item_similarity_df n_recommendations =
     (if item_id \<notin> set (index item_similarity_df) then Inr []
      else
        case loc item_similarity_df item_id of
          Inl e \<Rightarrow> Inl e
        | Inr s \<Rightarrow> Inr (slice_to n_recommendations (map fst (iloc_from1 (sort_values_desc s)))))"

section \<open>Example tables\<close>

text \<open>
  Two users and three items; every row and every column of the pivot has a rational norm,
  so that the similarities are rational numbers.
\<close>

definition example_ratings :: "rating_record list" where
  "example_ratings =
     [\<lparr>User_ID = 1, Item_ID = 10, Rating = 3\<rparr>, \<lparr>User_ID = 1, Item_ID = 20, Rating = 4\<rparr>,
      \<lparr>User_ID = 2, Item_ID = 20, Rating = 3\<rparr>, \<lparr>User_ID = 2, Item_ID = 30, Rating = 4\<rparr>]"

definition example_pivot :: dataframe where
  "example_pivot =
     \<lparr>columns = [10, 20, 30], rows = [(1, [Some 3, Some 4, None]), (2, [None, Some 3, Some 4])]\<rparr>"

definition example_user_similarity :: dataframe where
  "example_user_similarity =
     \<lparr>columns = [1, 2], rows = [(1, [Some 1, Some (12 / 25)]), (2, [Some (12 / 25), Some 1])]\<rparr>"

definition example_item_similarity :: dataframe where
  "example_item_similarity =
     \<lparr>columns = [10, 20, 30],
      rows = [(10, [Some 1, Some (4 / 5), Some 0]),
              (20, [Some (4 / 5), Some 1, Some (3 / 5)]),
              (30, [Some 0, Some (3 / 5), Some 1])]\<rparr>"

text \<open>Two users with the same ratings, two items with the same ratings, and a user whose only rating is 0.\<close>

definition twin_users :: "rating_record list" where
  "twin_users = [\<lparr>User_ID = 1, Item_ID = 10, Rating = 5\<rparr>, \<lparr>User_ID = 2, Item_ID = 10, Rating = 5\<rparr>]"

definition twin_items :: "rating_record list" where
  "twin_items = [\<lparr>User_ID = 1, Item_ID = 10, Rating = 5\<rparr>, \<lparr>User_ID = 1, Item_ID = 20, Rating = 5\<rparr>]"

definition all_ones :: "int list \<Rightarrow> dataframe" where
  "all_ones ids = \<lparr>columns = ids, rows = map (\<lambda>a. (a, map (\<lambda>b. Some 1) ids)) ids\<rparr>"

definition zero_rated :: "rating_record list" where
  "zero_rated = [\<lparr>User_ID = 1, Item_ID = 10, Rating = 5\<rparr>, \<lparr>User_ID = 2, Item_ID = 20, Rating = 0\<rparr>]"

definition zero_rated_pivot :: dataframe where
  "zero_rated_pivot = \<lparr>columns = [10, 20], rows = [(1, [Some 5, None]), (2, [None, Some 0])]\<rparr>"

definition zero_rated_similarity :: dataframe where
  "zero_rated_similarity = \<lparr>columns = [1, 2], rows = [(1, [Some 1, Some 0]), (2, [Some 0, Some 0])]\<rparr>"

text \<open>
  A neighbour (user 2) who rated item 10 with 4.0 and item 20 with 4.5, next to a user who
  rated neither; a similarity matrix of two users of whom one (user 3) is not in the example
  pivot; a user whose only rating is \<^verbatim>\<open>1e-16\<close>; and an item (20) whose only rating is 0,
  in a pivot that is not its own transpose.
\<close>

definition threshold_pivot :: dataframe where
  "threshold_pivot =
     \<lparr>columns = [10, 20, 30, 40],
      rows = [(1, [None, None, Some 3, Some 4]), (2, [Some 4, Some (9 / 2), Some 4, Some 2])]\<rparr>"

definition threshold_similarity :: dataframe where
  "threshold_similarity =
     \<lparr>columns = [1, 2], rows = [(1, [Some 1, Some (8 / 15)]), (2, [Some (8 / 15), Some 1])]\<rparr>"

definition foreign_similarity :: dataframe where
  "foreign_similarity = \<lparr>columns = [1, 3], rows = [(1, [Some 1, Some 1]), (3, [Some 1, Some 1])]\<rparr>"




definition zero_item_ratings :: "rating_record list" where
  "zero_item_ratings =
     [\<lparr>User_ID = 1, Item_ID = 10, Rating = 3\<rparr>, \<lparr>User_ID = 1, Item_ID = 20, Rating = 0\<rparr>,
      \<lparr>User_ID = 2, Item_ID = 10, Rating = 4\<rparr>]"

definition zero_item_pivot :: dataframe where
  "zero_item_pivot = \<lparr>columns = [10, 20], rows = [(1, [Some 3, Some 0]), (2, [Some 4, None])]\<rparr>"


section \<open>Notions used in the proofs\<close>




definition values_of :: "real option list \<Rightarrow> real list" where
  "values_of x = map (\<lambda>v. case v of None \<Rightarrow> 0 | Some r \<Rightarrow> r) x"

definition unit_row :: "real list \<Rightarrow> real list" where
  "unit_row x = (let n = sqrt (sum_list (map (\<lambda>a. a * a) x))
                 in map (\<lambda>a. a / (if n < 10 * float_eps then 1 else n)) x)"

definition dot_real :: "real list \<Rightarrow> real list \<Rightarrow> real" where
  "dot_real x y = sum_list (map (\<lambda>(a, b). a * b) (zip x y))"

section \<open>Evaluation\<close>

lemma sqrt_9: "sqrt 9 = 3"
  by (rule real_sqrt_unique) simp_all

lemma sqrt_16: "sqrt 16 = 4"
  by (rule real_sqrt_unique) simp_all

lemma sqrt_25: "sqrt 25 = 5"
  by (rule real_sqrt_unique) simp_all

lemmas pivot_defs = build_pivot_table_def agg_mean_def group_ratings_def

lemmas similarity_defs = compute_user_similarity_def compute_item_similarity_def fillna_def
  to_numpy_def transpose_df_def cosine_similarity_def check_pairwise_arrays_def normalize_l2_def
  row_norms_def handle_zeros_in_scale_def float_eps_def np_divide_def dot_def np_add_def np_multiply_def
  DataFrame_def index_def

lemmas ranker_defs = recommend_for_user_def recommend_similar_items_def similar_users_def
  loc_def index_def sort_values_desc_def iloc_from1_def dropna_def
  high_rated_items_def fromkeys_def slice_to_def

lemma build_example_pivot: "build_pivot_table example_ratings = example_pivot"
  by (simp add: example_ratings_def example_pivot_def pivot_defs)

lemma compute_example_user_similarity:
  "compute_user_similarity example_pivot = Inr example_user_similarity"
  by (simp add: example_pivot_def example_user_similarity_def similarity_defs sqrt_25)

lemma compute_example_item_similarity:
  "compute_item_similarity example_pivot = Inr example_item_similarity"
  by (simp add: example_pivot_def example_item_similarity_def similarity_defs sqrt_9 sqrt_16 sqrt_25)

lemma build_zero_rated_pivot: "build_pivot_table zero_rated = zero_rated_pivot"
  by (simp add: zero_rated_def zero_rated_pivot_def pivot_defs)

lemma compute_zero_rated_similarity:
  "compute_user_similarity zero_rated_pivot = Inr zero_rated_similarity"
  by (simp add: zero_rated_pivot_def zero_rated_similarity_def similarity_defs sqrt_25)

lemma example_recommend_for_user:
  "recommend_for_user 1 example_pivot example_user_similarity 5 2 = Inr [30]"
  by (simp add: example_pivot_def example_user_similarity_def ranker_defs)

lemma example_recommend_similar_items:
  "recommend_similar_items 10 example_item_similarity 5 = Inr [20, 30]"
  by (simp add: example_item_similarity_def ranker_defs)

section \<open>Frames, series and slices\<close>

lemma set_slice_to: "set (slice_to n xs) \<subseteq> set xs"
  by (auto simp: slice_to_def dest: in_set_takeD)

lemma slice_to_0: "slice_to 0 xs = []"
  by (simp add: slice_to_def)

lemma loc_known:
  "label \<in> set (index df) \<Longrightarrow> \<exists>s. loc df label = Inr s \<and> set (map fst s) \<subseteq> set (columns df)"
proof -
  assume "label \<in> set (index df)"
  then obtain vs where "map_of (rows df) label = Some vs"
    by (metis index_def map_of_eq_None_iff not_Some_eq set_map)
  then show ?thesis
    by (auto simp: loc_def dest: set_zip_leftD)
qed

lemma distinct_loc:
  "distinct (columns df) \<Longrightarrow> loc df label = Inr s \<Longrightarrow> distinct (map fst s)"
  by (auto simp: loc_def map_fst_zip_take split: option.splits)

lemma map_of_graph: "map_of (map (\<lambda>k. (k, f k)) ks) k = (if k \<in> set ks then Some (f k) else None)"
  by (induction ks) auto

lemma zip_graph: "zip ks (map f ks) = map (\<lambda>k. (k, f k)) ks"
  by (induction ks) auto

lemma set_non_nans: "(l, r) \<in> set (non_nans s) \<longleftrightarrow> (l, Some r) \<in> set s"
  by (induction s rule: non_nans.induct) auto

lemma fst_sort_values_desc: "set (map fst (sort_values_desc s)) = set (map fst s)"
proof -
  have "l \<in> fst ` set (sort_values_desc s) \<longleftrightarrow> l \<in> fst ` set s" for l
  proof
    assume "l \<in> fst ` set (sort_values_desc s)"
    then show "l \<in> fst ` set s"
      by (force simp: sort_values_desc_def Let_def set_non_nans)
  next
    assume "l \<in> fst ` set s"
    then obtain v where v: "(l, v) \<in> set s" by auto
    show "l \<in> fst ` set (sort_values_desc s)"
    proof (cases v)
      case None
      with v show ?thesis by (force simp: sort_values_desc_def Let_def)
    next
      case (Some r)
      with v have "(l, r) \<in> set (non_nans s)" by (simp add: set_non_nans)
      then have "(l, Some r) \<in> set (sort_values_desc s)"
        by (force simp: sort_values_desc_def Let_def)
      then show ?thesis by force
    qed
  qed
  then show ?thesis by auto
qed

section \<open>The loop over the neighbours\<close>

lemma collect_known:
  "set ns \<subseteq> set (index pivot) \<Longrightarrow> \<exists>recs. collect_recommendations pivot t ns acc = Inr recs"
proof (induction ns arbitrary: acc)
  case Nil
  then show ?case by simp
next
  case (Cons u us)
  then obtain s where "loc pivot u = Inr s" using loc_known[of u pivot] by auto
  with Cons show ?case by simp
qed

lemma collect_Inr_loc:
  "collect_recommendations pivot t ns acc = Inr recs \<Longrightarrow> u \<in> set ns \<Longrightarrow> \<exists>s. loc pivot u = Inr s"
  by (induction ns arbitrary: acc) (auto split: sum.splits)

lemma collect_set_eq:
  "collect_recommendations pivot t ns acc = Inr recs \<Longrightarrow>
   set recs = set acc \<union> (\<Union>u\<in>set ns. case loc pivot u of Inl e \<Rightarrow> {} | Inr s \<Rightarrow> set (high_rated_items s t))"
proof (induction ns arbitrary: acc)
  case Nil
  then show ?case by simp
next
  case (Cons a ns)
  then obtain sa where sa: "loc pivot a = Inr sa"
    and rest: "collect_recommendations pivot t ns (acc @ high_rated_items sa t) = Inr recs"
    by (auto split: sum.splits)
  from Cons.IH[OF rest] sa show ?case by auto
qed

lemma in_high_rated_items:
  "item \<in> set (high_rated_items s t) \<longleftrightarrow> (\<exists>r. (item, Some r) \<in> set s \<and> r > t)"
  by (force simp: high_rated_items_def split: option.splits)

section \<open>The pivot\<close>

lemma at_cell_build_pivot_table:
  "at_cell (build_pivot_table df) u i =
     (if u \<in> User_ID ` set df \<and> i \<in> Item_ID ` set df
      then Inr (agg_mean (group_ratings df u i)) else Inl KeyError)"
  by (simp add: at_cell_def loc_def build_pivot_table_def Let_def map_of_graph zip_graph)


section \<open>The similarity matrices\<close>

lemma those_Some: "those xs = Some ys \<longleftrightarrow> xs = map Some ys"
  by (induction xs arbitrary: ys) (auto split: option.splits)

lemma those_those_Some: "those (map those X) = Some A \<longleftrightarrow> X = map (map Some) A"
proof -
  have "those (map those X) = Some A \<longleftrightarrow> map those X = map Some A"
    by (rule those_Some)
  also have "\<dots> \<longleftrightarrow> X = map (map Some) A"
  proof (induction X arbitrary: A)
    case Nil
    then show ?case by auto
  next
    case (Cons x X)
    then show ?case by (cases A) (auto simp: those_Some)
  qed
  finally show ?thesis .
qed

lemma values_of_Some: "values_of (map Some a) = a"
  by (simp add: values_of_def comp_def)


lemma float_eps_pos: "0 < float_eps"
  by (simp add: float_eps_def)

lemma np_divide_scale:
  "np_divide a (if n < 10 * float_eps then 1 else n) = Some (a / (if n < 10 * float_eps then 1 else n))"
  using float_eps_pos by (auto simp: np_divide_def)

lemma normalize_l2_unit: "normalize_l2 A = map (\<lambda>x. map Some (unit_row x)) A"
  by (simp add: normalize_l2_def row_norms_def handle_zeros_in_scale_def zip_graph comp_def
      np_divide_scale unit_row_def Let_def)

lemma dot_Some: "dot (map Some x) (map Some y) = Some (dot_real x y)"
proof (induction x arbitrary: y)
  case Nil
  then show ?case by (simp add: dot_def dot_real_def)
next
  case (Cons a x)
  show ?case
  proof (cases y)
    case Nil
    then show ?thesis by (simp add: dot_def dot_real_def)
  next
    case (Cons b y')
    with Cons.IH[of y'] show ?thesis
      by (simp add: dot_def dot_real_def np_add_def np_multiply_def)
  qed
qed

lemma dot_real_commute: "dot_real x y = dot_real y x"
proof -
  have "map (\<lambda>(a, b). a * b) (zip x y) = map (\<lambda>(a, b). a * b) (zip y x)"
    by (induction x arbitrary: y) (case_tac y; simp add: mult.commute)+
  then show ?thesis by (simp add: dot_real_def)
qed

lemma cosine_similarity_rows:
  assumes "cosine_similarity (map snd rs) = Inr K"
  shows "K = map (\<lambda>r. map (\<lambda>r'. Some (dot_real (unit_row (values_of (snd r)))
                                              (unit_row (values_of (snd r'))))) rs) rs"
    and "map snd rs = map (map Some) (map (\<lambda>r. values_of (snd r)) rs)"
proof -
  from assms obtain A where A: "those (map those (map snd rs)) = Some A"
    and K: "K = map (\<lambda>x. map (\<lambda>y. dot x y) (normalize_l2 A)) (normalize_l2 A)"
    by (auto simp: cosine_similarity_def check_pairwise_arrays_def Let_def
        split: option.splits if_splits)
  from A have X: "map snd rs = map (map Some) A" by (rule iffD1[OF those_those_Some])
  have "map (\<lambda>r. values_of (snd r)) rs = map values_of (map snd rs)"
    by (simp add: comp_def)
  also have "\<dots> = map values_of (map (map Some) A)"
    by (simp only: X)
  also have "\<dots> = A"
    by (simp add: comp_def values_of_Some)
  finally have A': "map (\<lambda>r. values_of (snd r)) rs = A" .
  show "map snd rs = map (map Some) (map (\<lambda>r. values_of (snd r)) rs)"
    unfolding A' by (rule X)
  show "K = map (\<lambda>r. map (\<lambda>r'. Some (dot_real (unit_row (values_of (snd r)))
                                              (unit_row (values_of (snd r'))))) rs) rs"
    unfolding K normalize_l2_unit A'[symmetric] by (simp add: comp_def dot_Some)
qed

lemma map_of_zip_labels:
  "map_of (zip (map fst rs) (map (\<lambda>r. G (snd r)) rs)) a = map_option G (map_of rs a)"
  by (induction rs) auto

lemma at_cell_similarity:
  assumes K: "cosine_similarity (map snd rs) = Inr K"
    and S: "DataFrame K (map fst rs) (map fst rs) = Inr S"
  shows "at_cell S a b =
     (case map_of rs a of
        None \<Rightarrow> Inl KeyError
      | Some x \<Rightarrow>
          (case map_of rs b of
             None \<Rightarrow> Inl KeyError
           | Some y \<Rightarrow> Inr (Some (dot_real (unit_row (values_of x)) (unit_row (values_of y))))))"
proof -
  define c where "c x y = dot_real (unit_row (values_of x)) (unit_row (values_of y))" for x y
  define G where "G x = map (\<lambda>r'. Some (c x (snd r'))) rs" for x
  from S have S': "S = \<lparr>columns = map fst rs, rows = zip (map fst rs) K\<rparr>"
    by (auto simp: DataFrame_def split: if_splits)
  have K': "K = map (\<lambda>r. G (snd r)) rs"
    unfolding cosine_similarity_rows(1)[OF K] G_def c_def ..
  have row: "map_of (rows S) a = map_option G (map_of rs a)"
    unfolding S' K' by (simp add: map_of_zip_labels)
  have cell: "map_of (zip (columns S) (G x)) b = map_option (\<lambda>y. Some (c x y)) (map_of rs b)" for x
    unfolding S' G_def using map_of_zip_labels[of rs "\<lambda>y. Some (c x y)" b] by simp
  show ?thesis
  proof (cases "map_of rs a")
    case None
    then show ?thesis by (simp add: at_cell_def loc_def row)
  next
    case (Some x)
    then show ?thesis
      by (cases "map_of rs b") (simp_all add: at_cell_def loc_def row cell c_def)
  qed
qed





lemma labels_fillna: "map fst (rows (fillna c df)) = index df"
  by (simp add: fillna_def index_def comp_def case_prod_beta)

lemma labels_transpose_df: "map fst (rows (transpose_df df)) = columns df"
  by (simp add: transpose_df_def comp_def map_nth)

lemma columns_fillna: "columns (fillna c df) = columns df"
  by (simp add: fillna_def)

lemma DataFrame_Inr:
  assumes "DataFrame K idx cols = Inr S"
  shows "S = \<lparr>columns = cols, rows = zip idx K\<rparr>" and "length K = length idx"
    and "\<forall>r \<in> set K. length r = length cols"
  using assms by (auto simp: DataFrame_def list_ex_iff split: if_splits)

lemma DataFrame_shape:
  assumes "DataFrame K idx cols = Inr S"
  shows "index S = idx" and "columns S = cols" and "to_numpy S = K"
  using DataFrame_Inr[OF assms] by (simp_all add: index_def to_numpy_def)

lemma compute_user_similarity_Inr:
  assumes "compute_user_similarity pivot = Inr S"
  obtains K where "cosine_similarity (map snd (rows (fillna 0 pivot))) = Inr K"
    and "DataFrame K (map fst (rows (fillna 0 pivot))) (map fst (rows (fillna 0 pivot))) = Inr S"
  using assms unfolding compute_user_similarity_def Let_def to_numpy_def labels_fillna
  by (auto split: sum.splits)

lemma compute_item_similarity_Inr:
  assumes "compute_item_similarity pivot = Inr S"
  obtains K where "cosine_similarity (map snd (rows (transpose_df (fillna 0 pivot)))) = Inr K"
    and "DataFrame K (map fst (rows (transpose_df (fillna 0 pivot))))
           (map fst (rows (transpose_df (fillna 0 pivot)))) = Inr S"
  using assms unfolding compute_item_similarity_def Let_def to_numpy_def labels_transpose_df
    columns_fillna
  by (auto split: sum.splits)





lemma similarity_symmetric:
  assumes K: "cosine_similarity (map snd rs) = Inr K"
    and S: "DataFrame K (map fst rs) (map fst rs) = Inr S"
  shows "at_cell S a b = at_cell S b a"
  by (cases "map_of rs a"; cases "map_of rs b")
    (simp_all add: at_cell_similarity[OF K S] dot_real_commute)

lemma fill_Some:
  "(case v of None \<Rightarrow> Some c | Some r \<Rightarrow> Some r) = Some (case v of None \<Rightarrow> c | Some r \<Rightarrow> r)"
  by (cases v) simp_all

lemma rows_fillna:
  "rows (fillna c df) = map (\<lambda>r. (fst r, map (\<lambda>v. Some (case v of None \<Rightarrow> c | Some x \<Rightarrow> x)) (snd r))) (rows df)"
  by (simp add: fillna_def case_prod_beta fill_Some)

lemma to_numpy_fillna:
  "to_numpy (fillna 0 df) = map (map Some) (map (\<lambda>r. values_of (snd r)) (rows df))"
  by (simp add: to_numpy_def rows_fillna values_of_def comp_def)


lemma check_pairwise_arrays_Somes:
  assumes "A \<noteq> []" and "hd A \<noteq> []"
  shows "check_pairwise_arrays (map (map Some) A) = Inr A"
proof -
  have t: "those (map those (map (map Some) A)) = Some A"
    unfolding those_those_Some ..
  from assms obtain r A' where A: "A = r # A'" "r \<noteq> []"
    by (cases A) auto
  show ?thesis
    unfolding check_pairwise_arrays_def t by (simp add: A)
qed

lemma cosine_similarity_returns:
  assumes "A \<noteq> []" and "hd A \<noteq> []"
  shows "\<exists>K. cosine_similarity (map (map Some) A) = Inr K \<and> length K = length A \<and>
             (\<forall>r \<in> set K. length r = length A)"
  unfolding cosine_similarity_def check_pairwise_arrays_Somes[OF assms]
  by (simp add: Let_def normalize_l2_unit)


lemma compute_user_similarity_returns:
  assumes "rows pivot \<noteq> []" and "columns pivot \<noteq> []"
    and "\<forall>r \<in> set (rows pivot). length (snd r) = length (columns pivot)"
  shows "\<exists>S. compute_user_similarity pivot = Inr S"
proof -
  define A where "A = map (\<lambda>r. values_of (snd r)) (rows pivot)"
  from assms obtain r rs where rs: "rows pivot = r # rs" "length (snd r) = length (columns pivot)"
    by (cases "rows pivot") auto
  with assms(2) have "A \<noteq> []" "hd A \<noteq> []"
    by (auto simp: A_def values_of_def)
  from cosine_similarity_returns[OF this] obtain K where
    K: "cosine_similarity (map (map Some) A) = Inr K" "length K = length A"
       "\<forall>r \<in> set K. length r = length A" by blast
  have len: "length A = length (index pivot)"
    by (simp add: A_def index_def)
  from K(2,3) have "DataFrame K (index pivot) (index pivot) =
      Inr \<lparr>columns = index pivot, rows = zip (index pivot) K\<rparr>"
    unfolding len by (simp add: DataFrame_def list_ex_iff)
  with K(1) show ?thesis
    unfolding compute_user_similarity_def Let_def to_numpy_fillna A_def by simp
qed


lemma to_numpy_transpose_fillna:
  assumes "\<forall>r \<in> set (rows df). length (snd r) = length (columns df)"
  shows "to_numpy (transpose_df (fillna 0 df)) =
         map (map Some) (map (\<lambda>j. map (\<lambda>r. values_of (snd r) ! j) (rows df)) [0..<length (columns df)])"
proof -
  have cell: "map (\<lambda>v. Some (case v of None \<Rightarrow> 0 | Some x \<Rightarrow> x)) (snd r) ! j = Some (values_of (snd r) ! j)"
    if "r \<in> set (rows df)" and "j < length (columns df)" for r j
    using that assms by (simp add: values_of_def)
  have "to_numpy (transpose_df (fillna 0 df)) =
        map (\<lambda>j. map (\<lambda>r. map (\<lambda>v. Some (case v of None \<Rightarrow> 0 | Some x \<Rightarrow> x)) (snd r) ! j) (rows df))
          [0..<length (columns df)]"
    by (simp add: to_numpy_def transpose_df_def rows_fillna columns_fillna comp_def)
  also have "\<dots> = map (\<lambda>j. map (\<lambda>r. Some (values_of (snd r) ! j)) (rows df)) [0..<length (columns df)]"
    by (intro map_cong refl) (simp add: cell)
  also have "\<dots> = map (map Some) (map (\<lambda>j. map (\<lambda>r. values_of (snd r) ! j) (rows df)) [0..<length (columns df)])"
    by (simp add: comp_def)
  finally show ?thesis .
qed

lemma compute_item_similarity_returns:
  assumes "rows pivot \<noteq> []" and "columns pivot \<noteq> []"
    and "\<forall>r \<in> set (rows pivot). length (snd r) = length (columns pivot)"
  shows "\<exists>S. compute_item_similarity pivot = Inr S"
proof -
  define A where "A = map (\<lambda>j. map (\<lambda>r. values_of (snd r) ! j) (rows pivot)) [0..<length (columns pivot)]"
  from assms(1,2) have "A \<noteq> []" "hd A \<noteq> []"
    by (simp_all add: A_def hd_map)
  from cosine_similarity_returns[OF this] obtain K where
    K: "cosine_similarity (map (map Some) A) = Inr K" "length K = length A"
       "\<forall>r \<in> set K. length r = length A" by blast
  have len: "length A = length (columns pivot)"
    by (simp add: A_def)
  from K(2,3) have "DataFrame K (columns pivot) (columns pivot) =
       Inr \<lparr>columns = columns pivot, rows = zip (columns pivot) K\<rparr>"
    unfolding len by (simp add: DataFrame_def list_ex_iff)
  with K(1) show ?thesis
    unfolding compute_item_similarity_def Let_def to_numpy_transpose_fillna[OF assms(3)] A_def
    by simp
qed

section \<open>Further evaluation and lemmas\<close>

lemma sqrt_225_4: "sqrt (225 / 4) = 15 / 2"
  by (rule real_sqrt_unique) (simp_all add: power2_eq_square)

lemma compute_threshold_similarity:
  "compute_user_similarity threshold_pivot = Inr threshold_similarity"
  by (simp add: threshold_pivot_def threshold_similarity_def similarity_defs sqrt_25 sqrt_225_4)

lemma threshold_recommend_for_user:
  "recommend_for_user 1 threshold_pivot threshold_similarity 5 4 = Inr [20]"
  by (simp add: threshold_pivot_def threshold_similarity_def ranker_defs)

lemma fold_fromkeys:
  "set (fold (\<lambda>x acc. if x \<in> set acc then acc else acc @ [x]) xs acc) = set acc \<union> set xs"
  "distinct acc \<Longrightarrow> distinct (fold (\<lambda>x acc. if x \<in> set acc then acc else acc @ [x]) xs acc)"
  by (induction xs arbitrary: acc) auto

lemma set_fromkeys: "set (fromkeys xs) = set xs"
  by (simp add: fromkeys_def fold_fromkeys(1))

lemma distinct_fromkeys: "distinct (fromkeys xs)"
  by (simp add: fromkeys_def fold_fromkeys(2))

lemma slice_to_all: "int (length xs) \<le> n \<Longrightarrow> slice_to n xs = xs"
  by (simp add: slice_to_def)

lemma loc_labels: "loc df label = Inr s \<Longrightarrow> set (map fst s) \<subseteq> set (columns df)"
  by (auto simp: loc_def split: option.splits dest: set_zip_leftD)

lemma high_rated_labels: "set (high_rated_items s t) \<subseteq> set (map fst s)"
  by (auto simp: high_rated_items_def)

lemma collect_labels:
  assumes "collect_recommendations pivot t ns [] = Inr recs"
  shows "set recs \<subseteq> set (columns pivot)"
proof
  fix i assume "i \<in> set recs"
  then obtain u where "u \<in> set ns"
    and i: "i \<in> (case loc pivot u of Inl e \<Rightarrow> {} | Inr s \<Rightarrow> set (high_rated_items s t))"
    unfolding collect_set_eq[OF assms] by auto
  then obtain s where s: "loc pivot u = Inr s" "i \<in> set (high_rated_items s t)"
    by (cases "loc pivot u") auto
  with high_rated_labels[of s t] loc_labels[OF s(1)] show "i \<in> set (columns pivot)"
    by blast
qed

lemma collect_rated_above:
  assumes c: "collect_recommendations pivot t ns [] = Inr recs"
  shows "item \<in> set recs \<longleftrightarrow>
         (\<exists>u \<in> set ns. \<exists>s r. loc pivot u = Inr s \<and> (item, Some r) \<in> set s \<and> r > t)"
proof
  assume "item \<in> set recs"
  then obtain u where u: "u \<in> set ns"
    and i: "item \<in> (case loc pivot u of Inl e \<Rightarrow> {} | Inr s \<Rightarrow> set (high_rated_items s t))"
    unfolding collect_set_eq[OF c] by auto
  from collect_Inr_loc[OF c u] obtain s where s: "loc pivot u = Inr s" by blast
  with i have "item \<in> set (high_rated_items s t)" by simp
  with u s show "\<exists>u \<in> set ns. \<exists>s r. loc pivot u = Inr s \<and> (item, Some r) \<in> set s \<and> r > t"
    unfolding in_high_rated_items by blast
next
  assume "\<exists>u \<in> set ns. \<exists>s r. loc pivot u = Inr s \<and> (item, Some r) \<in> set s \<and> r > t"
  then obtain u s r where u: "u \<in> set ns" and s: "loc pivot u = Inr s"
    and r: "(item, Some r) \<in> set s" "r > t" by blast
  from r have "item \<in> set (high_rated_items s t)" unfolding in_high_rated_items by blast
  with u s show "item \<in> set recs"
    unfolding collect_set_eq[OF c] by force
qed

lemma in_dropna: "item \<in> set (map fst (dropna own)) \<longleftrightarrow> (\<exists>r. (item, Some r) \<in> set own)"
  by (force simp: dropna_def)

lemma recommend_for_user_Inr:
  assumes "recommend_for_user user_id pivot usim n t = Inr recs"
    and "user_id \<in> set (index pivot)"
    and "similar_users user_id usim = Inr neighbours"
  obtains recommendations own where
    "collect_recommendations pivot t (map fst neighbours) [] = Inr recommendations"
    and "loc pivot user_id = Inr own"
    and "recs = slice_to n (filter (\<lambda>i. i \<notin> set (map fst (dropna own))) (fromkeys recommendations))"
  using assms by (auto simp: recommend_for_user_def Let_def split: sum.splits)











lemma build_zero_item_pivot: "build_pivot_table zero_item_ratings = zero_item_pivot"
  by (simp add: zero_item_ratings_def zero_item_pivot_def pivot_defs)

section \<open>Claims about the pivot builder\<close>

text \<open>
  C6: for every ratings table, the row index of the pivot is the ascending list of the
  distinct user ids and the column index the ascending list of the distinct item ids of the
  input; the cell of a (user, item) pair is the arithmetic mean of the ratings recorded for
  the pair and is absent (NaN, not zero) when no record backs it; the ratings
  [(1,1,2),(1,1,4)] give 3.0 in cell (1,1).
\<close>

theorem pivot_index_and_mean:
  "index (build_pivot_table df) = sorted_list_of_set (User_ID ` set df) \<and>
   columns (build_pivot_table df) = sorted_list_of_set (Item_ID ` set df) \<and>
   at_cell (build_pivot_table df) u i =
     (if u \<in> User_ID ` set df \<and> i \<in> Item_ID ` set df
      then Inr (let g = map Rating (filter (\<lambda>r. User_ID r = u \<and> Item_ID r = i) df)
                in if g = [] then None else Some (sum_list g / real (length g)))
      else Inl KeyError) \<and>
   at_cell (build_pivot_table [\<lparr>User_ID = 1, Item_ID = 1, Rating = 2\<rparr>,
                               \<lparr>User_ID = 1, Item_ID = 1, Rating = 4\<rparr>]) 1 1 = Inr (Some 3)"
proof (intro conjI)
  show "index (build_pivot_table df) = sorted_list_of_set (User_ID ` set df)"
    by (simp add: index_def build_pivot_table_def Let_def comp_def sorted_list_of_set_sort_remdups
        flip: set_map)
  show "columns (build_pivot_table df) = sorted_list_of_set (Item_ID ` set df)"
    by (simp add: build_pivot_table_def Let_def sorted_list_of_set_sort_remdups flip: set_map)
  show "at_cell (build_pivot_table df) u i =
     (if u \<in> User_ID ` set df \<and> i \<in> Item_ID ` set df
      then Inr (let g = map Rating (filter (\<lambda>r. User_ID r = u \<and> Item_ID r = i) df)
                in if g = [] then None else Some (sum_list g / real (length g)))
      else Inl KeyError)"
    unfolding at_cell_build_pivot_table by (simp add: agg_mean_def group_ratings_def Let_def)
  show "at_cell (build_pivot_table [\<lparr>User_ID = 1, Item_ID = 1, Rating = 2\<rparr>,
                               \<lparr>User_ID = 1, Item_ID = 1, Rating = 4\<rparr>]) 1 1 = Inr (Some 3)"
    unfolding at_cell_build_pivot_table by (simp add: agg_mean_def group_ratings_def)
qed

theorem pivot_index_and_mean_witness:
  "index (build_pivot_table example_ratings) = [1, 2] \<and>
   columns (build_pivot_table example_ratings) = [10, 20, 30] \<and>
   at_cell (build_pivot_table example_ratings) 2 30 = Inr (Some 4) \<and>
   at_cell (build_pivot_table example_ratings) 1 30 = Inr None \<and>
   at_cell (build_pivot_table example_ratings) 3 10 = Inl KeyError"
proof -
  have u: "sorted_list_of_set (User_ID ` set example_ratings) = [1, 2]"
    by (simp add: example_ratings_def sorted_list_of_set_sort_remdups flip: set_map)
  have i: "sorted_list_of_set (Item_ID ` set example_ratings) = [10, 20, 30]"
    by (simp add: example_ratings_def sorted_list_of_set_sort_remdups flip: set_map)
  show ?thesis
    using pivot_index_and_mean[of example_ratings 2 30] pivot_index_and_mean[of example_ratings 1 30]
      pivot_index_and_mean[of example_ratings 3 10]
    unfolding u i by (simp add: example_ratings_def)
qed


section \<open>Claims about the empty table\<close>

text \<open>
  C1: for the empty ratings table, \<open>build_pivot_table\<close> returns a pivot with empty row and
  column index, and the ranking calls on empty frames return the empty list; but
  \<open>compute_user_similarity\<close> and \<open>compute_item_similarity\<close> do not return an empty
  matrix on it: the validation of \<open>cosine_similarity\<close> rejects an array without rows, and
  both calls end in a ValueError.
\<close>

theorem empty_table_similarity_raises:
  "build_pivot_table [] = \<lparr>columns = [], rows = []\<rparr> \<and>
   compute_user_similarity (build_pivot_table []) = Inl ValueError \<and>
   compute_item_similarity (build_pivot_table []) = Inl ValueError \<and>
   recommend_for_user user_id (build_pivot_table []) user_similarity_df n t = Inr [] \<and>
   recommend_similar_items item_id \<lparr>columns = [], rows = []\<rparr> n = Inr []"
  by (simp add: pivot_defs similarity_defs recommend_for_user_def recommend_similar_items_def)

section \<open>Claims about the ranking\<close>

text \<open>
  C2: \<open>recommend_for_user\<close> is meant to leave \<open>user_id\<close> out of the neighbours it walks.
  The code drops the first entry of the sorted similarity row, whoever that is. For two
  users with the same ratings every similarity is 1, user 1 comes first in the row of
  user 2 and is dropped, and user 2 is left as its own and only neighbour (the two users
  have the same row, so whatever the order of the tie, one of them keeps itself). For a user
  whose only rating is 0 every similarity is 0, the real neighbour (user 1, who rated
  item 10 with 5) is dropped, and nothing is recommended.
\<close>

theorem twin_user_is_own_neighbour:
  "compute_user_similarity (build_pivot_table twin_users) = Inr (all_ones [1, 2]) \<and>
   similar_users 2 (all_ones [1, 2]) = Inr [(2, Some 1)] \<and>
   similar_users 1 (all_ones [1, 2]) = Inr [(2, Some 1)] \<and>
   loc (all_ones [1, 2]) 1 = loc (all_ones [1, 2]) 2 \<and>
   compute_user_similarity (build_pivot_table zero_rated) = Inr zero_rated_similarity \<and>
   similar_users 2 zero_rated_similarity = Inr [(2, Some 0)] \<and>
   recommend_for_user 2 (build_pivot_table zero_rated) zero_rated_similarity 5 4 = Inr []"
proof (intro conjI)
  show "compute_user_similarity (build_pivot_table twin_users) = Inr (all_ones [1, 2])"
    by (simp add: twin_users_def all_ones_def pivot_defs similarity_defs sqrt_25)
  show "similar_users 2 (all_ones [1, 2]) = Inr [(2, Some 1)]"
    by (simp add: all_ones_def ranker_defs)
  show "similar_users 1 (all_ones [1, 2]) = Inr [(2, Some 1)]"
    by (simp add: all_ones_def ranker_defs)
  show "loc (all_ones [1, 2]) 1 = loc (all_ones [1, 2]) 2"
    by (simp add: all_ones_def loc_def)
  show "compute_user_similarity (build_pivot_table zero_rated) = Inr zero_rated_similarity"
    by (simp add: build_zero_rated_pivot compute_zero_rated_similarity)
  show "similar_users 2 zero_rated_similarity = Inr [(2, Some 0)]"
    by (simp add: zero_rated_similarity_def ranker_defs)
  show "recommend_for_user 2 (build_pivot_table zero_rated) zero_rated_similarity 5 4 = Inr []"
    unfolding build_zero_rated_pivot
    by (simp add: zero_rated_pivot_def zero_rated_similarity_def ranker_defs)
qed

text \<open>
  C3: \<open>recommend_similar_items\<close> is meant to return the other items by descending
  similarity, \<open>item_id\<close> left out, ties in the order of the matrix. The code drops the
  first entry of the sorted row. For two items with the same ratings both similarities
  of item 20 are 1, the tie puts item 10 first, item 10 is dropped, and item 20 is
  returned as similar to itself.
\<close>

theorem twin_item_recommends_itself:
  "compute_item_similarity (build_pivot_table twin_items) = Inr (all_ones [10, 20]) \<and>
   recommend_similar_items 20 (all_ones [10, 20]) 5 = Inr [20] \<and>
   recommend_similar_items 10 (all_ones [10, 20]) 5 = Inr [20] \<and>
   loc (all_ones [10, 20]) 10 = loc (all_ones [10, 20]) 20"
proof (intro conjI)
  show "compute_item_similarity (build_pivot_table twin_items) = Inr (all_ones [10, 20])"
    by (simp add: twin_items_def all_ones_def pivot_defs similarity_defs sqrt_25)
  show "recommend_similar_items 20 (all_ones [10, 20]) 5 = Inr [20]"
    by (simp add: all_ones_def ranker_defs)
  show "recommend_similar_items 10 (all_ones [10, 20]) 5 = Inr [20]"
    by (simp add: all_ones_def ranker_defs)
  show "loc (all_ones [10, 20]) 10 = loc (all_ones [10, 20]) 20"
    by (simp add: all_ones_def loc_def)
qed

text \<open>
  C4: the cutoff of the candidate collection of \<open>recommend_for_user\<close> is strict. Every
  item the function returns was rated above \<open>min_rating_threshold\<close> by one of the
  neighbours it walks, so an item that the neighbours rated at the threshold or below is
  never returned; and when the count does not cut the list, an item is returned exactly
  when some walked neighbour rated it above the threshold and the user has not rated it.
  In the row of a walked neighbour an item is among the high-rated items exactly when its
  rating is greater than the threshold. With threshold 4.0, a rating of 4.0 is excluded
  and one of 4.5 included. The neighbours are the users the function walks, the sorted
  similarity row without its first entry; which users these are is the matter of C2.
\<close>

theorem strict_threshold:
  assumes "recommend_for_user user_id pivot user_similarity_df n t = Inr recs"
    and "user_id \<in> set (index pivot)"
    and "similar_users user_id user_similarity_df = Inr neighbours"
  shows
    "(item \<in> set recs \<longrightarrow>
        (\<exists>u \<in> set (map fst neighbours). \<exists>s r. loc pivot u = Inr s \<and> (item, Some r) \<in> set s \<and> r > t)) \<and>
     (int (length (columns pivot)) \<le> n \<longrightarrow>
        (item \<in> set recs \<longleftrightarrow>
           (\<exists>u \<in> set (map fst neighbours). \<exists>s r. loc pivot u = Inr s \<and> (item, Some r) \<in> set s \<and> r > t) \<and>
           (\<forall>own r. loc pivot user_id = Inr own \<longrightarrow> (item, Some r) \<notin> set own))) \<and>
     (distinct (columns pivot) \<longrightarrow>
        (\<forall>u \<in> set (map fst neighbours). \<forall>s r. loc pivot u = Inr s \<longrightarrow> (item, Some r) \<in> set s \<longrightarrow>
           (item \<in> set (high_rated_items s t) \<longleftrightarrow> r > t)))"
proof -
  from assms obtain recommendations own where
    c: "collect_recommendations pivot t (map fst neighbours) [] = Inr recommendations"
    and own: "loc pivot user_id = Inr own"
    and recs: "recs = slice_to n (filter (\<lambda>i. i \<notin> set (map fst (dropna own))) (fromkeys recommendations))"
    by (rule recommend_for_user_Inr)
  let ?unique = "filter (\<lambda>i. i \<notin> set (map fst (dropna own))) (fromkeys recommendations)"
  let ?above = "\<exists>u \<in> set (map fst neighbours). \<exists>s r. loc pivot u = Inr s \<and> (item, Some r) \<in> set s \<and> r > t"
  have "item \<in> set ?unique \<longleftrightarrow>
        item \<in> set recommendations \<and> item \<notin> set (map fst (dropna own))"
    by (simp add: set_fromkeys)
  then have unique: "item \<in> set ?unique \<longleftrightarrow> ?above \<and> \<not> (\<exists>r. (item, Some r) \<in> set own)"
    unfolding collect_rated_above[OF c] in_dropna .
  have sound: "item \<in> set recs \<longrightarrow> ?above"
    using set_slice_to[of n ?unique] unique unfolding recs by blast
  have complete: "item \<in> set recs \<longleftrightarrow> ?above \<and> (\<forall>own r. loc pivot user_id = Inr own \<longrightarrow> (item, Some r) \<notin> set own)"
    if n: "int (length (columns pivot)) \<le> n"
  proof -
    have "distinct ?unique" by (simp add: distinct_fromkeys)
    moreover have "set ?unique \<subseteq> set (columns pivot)"
      using collect_labels[OF c] by (auto simp: set_fromkeys)
    ultimately have "length ?unique \<le> length (columns pivot)"
      by (metis card_length card_mono distinct_card finite_set order_trans)
    with n have "slice_to n ?unique = ?unique" by (intro slice_to_all) linarith
    then have "item \<in> set recs \<longleftrightarrow> item \<in> set ?unique" by (simp add: recs)
    with unique own show ?thesis by auto
  qed
  have row: "item \<in> set (high_rated_items s t) \<longleftrightarrow> r > t"
    if d: "distinct (columns pivot)" and s: "loc pivot u = Inr s" and m: "(item, Some r) \<in> set s" for u s r
  proof
    have dm: "distinct (map fst s)" using d s by (rule distinct_loc)
    assume "item \<in> set (high_rated_items s t)"
    then obtain r' where r': "(item, Some r') \<in> set s" "r' > t"
      unfolding in_high_rated_items by blast
    from dm r'(1) m have "Some r' = Some r" by (meson eq_key_imp_eq_value)
    with r'(2) show "r > t" by simp
  next
    assume "r > t"
    with m show "item \<in> set (high_rated_items s t)"
      unfolding in_high_rated_items by blast
  qed
  from sound complete row show ?thesis by blast
qed

theorem strict_threshold_witness:
  "recommend_for_user 1 threshold_pivot threshold_similarity 5 4 = Inr [20] \<and>
   1 \<in> set (index threshold_pivot) \<and>
   similar_users 1 threshold_similarity = Inr [(2, Some (8 / 15))] \<and>
   loc threshold_pivot 2 = Inr [(10, Some 4), (20, Some (9 / 2)), (30, Some 4), (40, Some 2)] \<and>
   int (length (columns threshold_pivot)) \<le> 5 \<and>
   10 \<notin> set [20::int] \<and> 20 \<in> set [20::int] \<and>
   10 \<notin> set (high_rated_items [(10, Some 4), (20, Some (9 / 2)), (30, Some 4), (40, Some 2)] 4) \<and>
   20 \<in> set (high_rated_items [(10, Some 4), (20, Some (9 / 2)), (30, Some 4), (40, Some 2)] 4)"
proof -
  have u: "1 \<in> set (index threshold_pivot)"
    by (simp add: threshold_pivot_def index_def)
  have s: "similar_users 1 threshold_similarity = Inr [(2, Some (8 / 15))]"
    by (simp add: threshold_similarity_def ranker_defs)
  have l: "loc threshold_pivot 2 = Inr [(10, Some 4), (20, Some (9 / 2)), (30, Some 4), (40, Some 2)]"
    by (simp add: threshold_pivot_def loc_def)
  have n: "int (length (columns threshold_pivot)) \<le> 5" and d: "distinct (columns threshold_pivot)"
    by (simp_all add: threshold_pivot_def)
  note r = threshold_recommend_for_user
  from strict_threshold[OF r u s, of 10] strict_threshold[OF r u s, of 20] r u s l n d
  show ?thesis by (simp add: high_rated_items_def)
qed

text \<open>
  C5: for every pivot, user-similarity matrix, user, count and threshold, an item with a
  non-absent cell in the row of \<open>user_id\<close> (whatever the rating) is not among the items
  that \<open>recommend_for_user\<close> returns.
\<close>

theorem never_already_rated:
  assumes "recommend_for_user user_id pivot user_similarity_df n t = Inr recs"
    and "loc pivot user_id = Inr own"
    and "(item, Some rating) \<in> set own"
  shows "item \<notin> set recs"
proof (cases "user_id \<in> set (index pivot)")
  case False
  with assms(1) show ?thesis by (simp add: recommend_for_user_def)
next
  case True
  have rated: "item \<in> set (map fst (dropna own))"
    using assms(3) by (force simp: dropna_def)
  from True assms(1,2) obtain xs where
    "recs = slice_to n (filter (\<lambda>i. i \<notin> set (map fst (dropna own))) xs)"
    by (auto simp: recommend_for_user_def Let_def split: sum.splits)
  then have "set recs \<subseteq> {i. i \<notin> set (map fst (dropna own))}"
    using set_slice_to[of n "filter (\<lambda>i. i \<notin> set (map fst (dropna own))) xs"] by auto
  with rated show ?thesis by blast
qed

theorem never_already_rated_witness:
  "recommend_for_user 1 example_pivot example_user_similarity 5 2 = Inr [30] \<and>
   loc example_pivot 1 = Inr [(10, Some 3), (20, Some 4), (30, None)] \<and>
   20 \<notin> set [30::int]"
proof -
  have l: "loc example_pivot 1 = Inr [(10, Some 3), (20, Some 4), (30, None)]"
    by (simp add: example_pivot_def loc_def)
  have m: "(20, Some 4) \<in> set [(10, Some 3), (20, Some 4), (30, None :: real option)]"
    by simp
  from never_already_rated[OF example_recommend_for_user l m] example_recommend_for_user l
  show ?thesis by blast
qed

text \<open>
  C9: a \<open>user_id\<close> that is not in the row index of the pivot makes \<open>recommend_for_user\<close>
  return the empty list, and an \<open>item_id\<close> that is not in the index of the
  item-similarity matrix makes \<open>recommend_similar_items\<close> return the empty list; neither
  call raises.
\<close>

theorem unknown_identifier_empty:
  "(user_id \<notin> set (index pivot) \<longrightarrow>
      recommend_for_user user_id pivot user_similarity_df n t = Inr []) \<and>
   (item_id \<notin> set (index item_similarity_df) \<longrightarrow>
      recommend_similar_items item_id item_similarity_df n = Inr [])"
  by (simp add: recommend_for_user_def recommend_similar_items_def)

theorem unknown_identifier_empty_witness:
  "3 \<notin> set (index example_pivot) \<and> 40 \<notin> set (index example_item_similarity) \<and>
   recommend_for_user 3 example_pivot example_user_similarity 5 4 = Inr [] \<and>
   recommend_similar_items 40 example_item_similarity 5 = Inr []"
proof -
  have u: "3 \<notin> set (index example_pivot)"
    by (simp add: example_pivot_def index_def)
  have i: "40 \<notin> set (index example_item_similarity)"
    by (simp add: example_item_similarity_def index_def)
  from u i unknown_identifier_empty[of 3 example_pivot example_user_similarity 5 4 40
      example_item_similarity]
  show ?thesis by blast
qed

text \<open>
  C10: with \<open>n_recommendations = 0\<close> \<open>recommend_similar_items\<close> returns the empty list
  for every identifier and every similarity matrix, and \<open>recommend_for_user\<close> returns the
  empty list for every identifier, threshold and pivot when the user-similarity matrix is
  labelled on both axes by the row index of the pivot, as \<open>compute_user_similarity\<close>
  builds it. The lookups by label come before the slice, so a similarity matrix that names a
  user the pivot does not have makes the call raise KeyError, also at count 0.
\<close>

theorem zero_recommendations:
  assumes "index user_similarity_df = index pivot"
    and "columns user_similarity_df = index pivot"
  shows "recommend_for_user user_id pivot user_similarity_df 0 t = Inr [] \<and>
         recommend_similar_items item_id item_similarity_df 0 = Inr []"
proof
  show "recommend_similar_items item_id item_similarity_df 0 = Inr []"
    using loc_known[of item_id item_similarity_df]
    by (auto simp: recommend_similar_items_def slice_to_0)
next
  show "recommend_for_user user_id pivot user_similarity_df 0 t = Inr []"
  proof (cases "user_id \<in> set (index pivot)")
    case False
    then show ?thesis by (simp add: recommend_for_user_def)
  next
    case True
    then obtain s where s: "loc user_similarity_df user_id = Inr s"
      "set (map fst s) \<subseteq> set (index pivot)"
      using loc_known[of user_id user_similarity_df] assms by auto
    have "set (map fst (iloc_from1 (sort_values_desc s))) \<subseteq> set (map fst (sort_values_desc s))"
      unfolding iloc_from1_def set_map by (intro image_mono set_drop_subset)
    with s(2) have "set (map fst (iloc_from1 (sort_values_desc s))) \<subseteq> set (index pivot)"
      unfolding fst_sort_values_desc by blast
    then obtain recs where recs:
      "collect_recommendations pivot t (map fst (iloc_from1 (sort_values_desc s))) [] = Inr recs"
      using collect_known by blast
    obtain own where "loc pivot user_id = Inr own" using loc_known[OF True] by blast
    with True s(1) recs show ?thesis
      by (simp add: recommend_for_user_def similar_users_def slice_to_0)
  qed
qed

theorem zero_recommendations_witness:
  "index example_user_similarity = index example_pivot \<and>
   columns example_user_similarity = index example_pivot \<and>
   recommend_for_user 1 example_pivot example_user_similarity 0 2 = Inr [] \<and>
   recommend_similar_items 10 example_item_similarity 0 = Inr []"
proof -
  have i: "index example_user_similarity = index example_pivot"
    by (simp add: example_user_similarity_def example_pivot_def index_def)
  have c: "columns example_user_similarity = index example_pivot"
    by (simp add: example_user_similarity_def example_pivot_def index_def)
  from i c zero_recommendations[OF i c, of 1 2 10 example_item_similarity]
  show ?thesis by blast
qed

theorem foreign_similarity_counterexample:
  "1 \<in> set (index example_pivot) \<and>
   similar_users 1 foreign_similarity = Inr [(3, Some 1)] \<and>
   loc example_pivot 3 = Inl KeyError \<and>
   recommend_for_user 1 example_pivot foreign_similarity 0 2 = Inl KeyError \<and>
   recommend_for_user 1 example_pivot foreign_similarity 0 2 \<noteq> Inr []"
  by (simp add: example_pivot_def foreign_similarity_def ranker_defs)

section \<open>Claims about the similarity engine\<close>




text \<open>
  C8: for every pivot, the matrices that \<open>compute_user_similarity\<close> and
  \<open>compute_item_similarity\<close> return are square, labelled on rows and columns by the
  row index (users) or the column index (items) of the pivot, and symmetric:
  sim(a, b) = sim(b, a) for all labels. Both functions return a matrix for every pivot
  with at least one row and one column.
\<close>

theorem similarity_square_symmetric:
  "(rows pivot \<noteq> [] \<and> columns pivot \<noteq> [] \<and>
    (\<forall>r \<in> set (rows pivot). length (snd r) = length (columns pivot)) \<longrightarrow>
      (\<exists>S. compute_user_similarity pivot = Inr S) \<and>
      (\<exists>S. compute_item_similarity pivot = Inr S)) \<and>
   (compute_user_similarity pivot = Inr S_user \<longrightarrow>
      index S_user = index pivot \<and> columns S_user = index pivot \<and>
      length (to_numpy S_user) = length (index pivot) \<and>
      (\<forall>r \<in> set (to_numpy S_user). length r = length (index pivot)) \<and>
      at_cell S_user a b = at_cell S_user b a) \<and>
   (compute_item_similarity pivot = Inr S_item \<longrightarrow>
      index S_item = columns pivot \<and> columns S_item = columns pivot \<and>
      length (to_numpy S_item) = length (columns pivot) \<and>
      (\<forall>r \<in> set (to_numpy S_item). length r = length (columns pivot)) \<and>
      at_cell S_item c d = at_cell S_item d c)"
proof (intro conjI impI)
  assume wf: "rows pivot \<noteq> [] \<and> columns pivot \<noteq> [] \<and>
    (\<forall>r \<in> set (rows pivot). length (snd r) = length (columns pivot))"
  then show "\<exists>S. compute_user_similarity pivot = Inr S"
    by (intro compute_user_similarity_returns) simp_all
  from wf show "\<exists>S. compute_item_similarity pivot = Inr S"
    by (intro compute_item_similarity_returns) simp_all
next
  assume "compute_user_similarity pivot = Inr S_user"
  then obtain K where K: "cosine_similarity (map snd (rows (fillna 0 pivot))) = Inr K"
    and S: "DataFrame K (map fst (rows (fillna 0 pivot))) (map fst (rows (fillna 0 pivot))) = Inr S_user"
    by (rule compute_user_similarity_Inr)
  note shape = DataFrame_shape[OF S, unfolded labels_fillna]
    and lens = DataFrame_Inr(2,3)[OF S, unfolded labels_fillna]
  show "index S_user = index pivot" by (rule shape(1))
  show "columns S_user = index pivot" by (rule shape(2))
  show "length (to_numpy S_user) = length (index pivot)"
    unfolding shape(3) by (rule lens(1))
  show "\<forall>r \<in> set (to_numpy S_user). length r = length (index pivot)"
    unfolding shape(3) by (rule lens(2))
  show "at_cell S_user a b = at_cell S_user b a"
    by (rule similarity_symmetric[OF K S])
next
  assume "compute_item_similarity pivot = Inr S_item"
  then obtain K where K: "cosine_similarity (map snd (rows (transpose_df (fillna 0 pivot)))) = Inr K"
    and S: "DataFrame K (map fst (rows (transpose_df (fillna 0 pivot))))
              (map fst (rows (transpose_df (fillna 0 pivot)))) = Inr S_item"
    by (rule compute_item_similarity_Inr)
  note shape = DataFrame_shape[OF S, unfolded labels_transpose_df columns_fillna]
    and lens = DataFrame_Inr(2,3)[OF S, unfolded labels_transpose_df columns_fillna]
  show "index S_item = columns pivot" by (rule shape(1))
  show "columns S_item = columns pivot" by (rule shape(2))
  show "length (to_numpy S_item) = length (columns pivot)"
    unfolding shape(3) by (rule lens(1))
  show "\<forall>r \<in> set (to_numpy S_item). length r = length (columns pivot)"
    unfolding shape(3) by (rule lens(2))
  show "at_cell S_item c d = at_cell S_item d c"
    by (rule similarity_symmetric[OF K S])
qed

theorem similarity_square_symmetric_witness:
  "compute_user_similarity example_pivot = Inr example_user_similarity \<and>
   compute_item_similarity example_pivot = Inr example_item_similarity \<and>
   index example_user_similarity = index example_pivot \<and>
   columns example_user_similarity = index example_pivot \<and>
   index example_item_similarity = columns example_pivot \<and>
   columns example_item_similarity = columns example_pivot \<and>
   at_cell example_user_similarity 1 2 = at_cell example_user_similarity 2 1 \<and>
   at_cell example_user_similarity 2 1 = Inr (Some (12 / 25)) \<and>
   at_cell example_item_similarity 20 30 = at_cell example_item_similarity 30 20 \<and>
   at_cell example_item_similarity 30 20 = Inr (Some (3 / 5))"
proof -
  have wf: "rows example_pivot \<noteq> [] \<and> columns example_pivot \<noteq> [] \<and>
    (\<forall>r \<in> set (rows example_pivot). length (snd r) = length (columns example_pivot))"
    by (simp add: example_pivot_def)
  have u: "at_cell example_user_similarity 2 1 = Inr (Some (12 / 25))"
    by (simp add: at_cell_def loc_def example_user_similarity_def)
  have i: "at_cell example_item_similarity 30 20 = Inr (Some (3 / 5))"
    by (simp add: at_cell_def loc_def example_item_similarity_def)
  from similarity_square_symmetric[of example_pivot example_user_similarity 1 2
      example_item_similarity 20 30]
    wf compute_example_user_similarity compute_example_item_similarity u i
  show ?thesis by simp
qed

end
